theory Spec2Isabelle
  imports Main "HOL-Library.Word" "HOL-Library.Multiset"
begin

unbundle bit_operations_syntax

section \<open>The bit radix trie of radix64.go\<close>

text \<open>
  The Go code builds a tree of heap objects linked by pointers (two branches and a
  parent back-pointer) and mutates them in place. The model keeps that: a heap is a
  list of node records, a pointer is an index into the list, \<open>nil\<close> is \<open>None\<close>,
  an allocation appends a record. Every function takes the heap and returns the new one.
  A panic is an error value returned together with the heap as it is at that moment.
  Go's \<open>int\<close> arguments (\<open>bits\<close>, \<open>bit\<close>) are modelled as \<open>int\<close>: the code only
  compares them, subtracts them from small constants and converts them to \<open>uint\<close>,
  which is written out as \<open>word_of_int\<close>.
\<close>

subsection \<open>Data model\<close>

type_synonym addr = nat
type_synonym uint64 = "64 word"

record 'v Radix64 =
  branch :: "addr option list"
  parent :: "addr option"
  key :: uint64
  bits :: int
  Value :: 'v

type_synonym 'v heap = "'v Radix64 list"

datatype error = NotRootError | InvalidBitIndexError | NilDereference

text \<open>
  Modelled from the spec: the constants \<open>bitSize32\<close> and \<open>mask64\<close> are used by
  radix64.go but declared in a file that is not part of the sources at hand. The spec
  names the two key widths, 32 and 64, as the bit-count constants of the two
  instantiations; \<open>bitSize32\<close> is the width of the 32-bit one and \<open>mask64\<close> the
  64-bit key with every bit set.
\<close>

definition bitSize32 :: int where
  "bitSize32 = 32"

definition mask64 :: uint64 where
  "mask64 = - 1"

subsection \<open>Shifts and bit selection\<close>

text \<open>
  Go shifts by an unsigned count; a count of 64 or more gives 0 on a 64-bit operand,
  which is what a shift by exactly 64 gives on a \<open>64 word\<close>.
\<close>

definition shl64 :: "uint64 \<Rightarrow> uint64 \<Rightarrow> uint64" where
  "shl64 x s = push_bit (unat (min s 64)) x"

definition shr64 :: "uint64 \<Rightarrow> uint64 \<Rightarrow> uint64" where
  "shr64 x s = drop_bit (unat (min s 64)) x"

text \<open>
  \<open>bitK64(n, k) = byte((n & (1 << uint(k))) >> uint(k))\<close>; the byte indexes the
  branch array, so the model returns it as a \<open>nat\<close>.
\<close>

definition bitK64 :: "uint64 \<Rightarrow> int \<Rightarrow> nat" where
  "bitK64 n k = unat (ucast (shr64 (n AND shl64 1 (word_of_int k)) (word_of_int k)) :: 8 word)"

text \<open>\<open>uint64(mask64 << (bitSize32 - uint(r.bits)))\<close>\<close>

definition mask_of :: "int \<Rightarrow> uint64" where
  "mask_of b = shl64 mask64 (word_of_int bitSize32 - word_of_int b)"

subsection \<open>Accessors and field updates\<close>

definition Key :: "'v Radix64 \<Rightarrow> uint64" where
  "Key r = key r"

definition Bits :: "'v Radix64 \<Rightarrow> int" where
  "Bits r = bits r"

definition Leaf :: "'v Radix64 \<Rightarrow> bool" where
  "Leaf r \<longleftrightarrow> branch r ! 0 = None \<and> branch r ! 1 = None"

definition set64 :: "'v heap \<Rightarrow> addr \<Rightarrow> uint64 \<Rightarrow> int \<Rightarrow> 'v \<Rightarrow> 'v heap" where
  "set64 h r k b v = h[r := (h ! r)\<lparr>key := k, bits := b, Value := v\<rparr>]"

definition clear64 :: "'v::zero heap \<Rightarrow> addr \<Rightarrow> 'v heap" where
  "clear64 h r = h[r := (h ! r)\<lparr>key := 0, bits := 0, Value := 0\<rparr>]"

text \<open>\<open>r.branch[k] = c\<close>\<close>

definition set_branch :: "'v heap \<Rightarrow> addr \<Rightarrow> nat \<Rightarrow> addr option \<Rightarrow> 'v heap" where
  "set_branch h r k c = h[r := (h ! r)\<lparr>branch := (branch (h ! r))[k := c]\<rparr>]"

text \<open>\<open>r.new()\<close>: a fresh vacant leaf whose parent is \<open>r\<close>.\<close>

definition new64 :: "'v::zero heap \<Rightarrow> addr \<Rightarrow> 'v heap \<times> addr" where
  "new64 h r =
     (h @ [\<lparr>branch = [None, None], parent = Some r, key = 0, bits = 0, Value = 0\<rparr>],
      length h)"

text \<open>
  \<open>New64()\<close>: the root and its two children; all three are built with a \<open>nil\<close>
  parent. The root is the first of the three new objects.
\<close>

definition New64 :: "'v::zero heap \<Rightarrow> 'v heap \<times> addr" where
  "New64 h =
     (h @ [\<lparr>branch = [Some (length h + 1), Some (length h + 2)], parent = None,
             key = 0, bits = 0, Value = 0\<rparr>,
           \<lparr>branch = [None, None], parent = None, key = 0, bits = 0, Value = 0\<rparr>,
           \<lparr>branch = [None, None], parent = None, key = 0, bits = 0, Value = 0\<rparr>],
      length h)"

subsection \<open>insert\<close>

text \<open>\<open>r.branch[k] = r.new()\<close>\<close>

definition new_branch :: "'v::zero heap \<Rightarrow> addr \<Rightarrow> nat \<Rightarrow> 'v heap" where
  "new_branch h r k = set_branch (fst (new64 h r)) r k (Some (snd (new64 h r)))"

text \<open>
  \<open>c.insert(...); return r\<close>: the result of the call is dropped and \<open>r\<close> returned;
  a panic in the call passes through.
\<close>

definition then_return :: "addr \<Rightarrow> 'v heap \<times> (error + addr) \<Rightarrow> 'v heap \<times> (error + addr)" where
  "then_return r res = (fst res, case snd res of Inl e \<Rightarrow> Inl e | Inr _ \<Rightarrow> Inr r)"

text \<open>
  The recursion of \<open>insert\<close> goes one bit down per call and every recursive call sits
  behind the check \<open>bit < 0\<close>, so \<open>bit + 1\<close> is a measure (the argument
  \<open>bit\<close> is written \<open>bi\<close>, the argument \<open>bits\<close> is written \<open>bts\<close>; in
  the leaf case the locals \<open>bcur\<close> and \<open>bnew\<close> are written out as the calls of
  \<open>bitK64\<close> they stand for, both on the heap as it is on entry).
  The two nested tests of the non-leaf case
  (\<open>r.bits > 0 && bits == bitSize32-bit\<close>, then \<open>r.bits > bits\<close>) are one conjunction
  here; what lies between them in the source only reads a bit. A method call on a
  \<open>nil\<close> branch would panic with a nil dereference.
\<close>

function insert64 ::
  "'v::zero heap \<Rightarrow> addr \<Rightarrow> uint64 \<Rightarrow> int \<Rightarrow> 'v \<Rightarrow> int \<Rightarrow> 'v heap \<times> (error + addr)" where
  "insert64 h r n bts v bi =
    (if \<not> Leaf (h ! r) then
       (if bi < 0 then (h, Inl InvalidBitIndexError)
        else
          let bnew = bitK64 n bi in
          if bits (h ! r) = 0 \<and> bts = bitSize32 - bi then (set64 h r n bts v, Inr r)
          else if bits (h ! r) > 0 \<and> bts = bitSize32 - bi \<and> bits (h ! r) > bts then
            (let bcur = bitK64 (key (h ! r)) bi;
                 b1 = bits (h ! r); n1 = key (h ! r); v1 = Value (h ! r);
                 h1 = set64 h r n bts v;
                 h2 = (if branch (h1 ! r) ! bcur = None then new_branch h1 r bcur else h1)
             in case branch (h2 ! r) ! bcur of
                  None \<Rightarrow> (h2, Inl NilDereference)
                | Some c \<Rightarrow> then_return r (insert64 h2 c n1 b1 v1 (bi - 1)))
          else
            (let h1 = (if branch (h ! r) ! bnew = None then new_branch h r bnew else h)
             in case branch (h1 ! r) ! bnew of
                  None \<Rightarrow> (h1, Inl NilDereference)
                | Some c \<Rightarrow> insert64 h1 c n bts v (bi - 1)))
     else
       (if bits (h ! r) = 0 \<or> key (h ! r) = n then (set64 h r n bts v, Inr r)
        else if bi < 0 then (h, Inl InvalidBitIndexError)
        else
          if bitK64 (key (h ! r)) bi = bitK64 n bi then
            (let h1 = new_branch h r (bitK64 (key (h ! r)) bi) in
             if bits (h1 ! r) > 0 \<and> (bts = bitSize32 - bi \<or> bts < bits (h1 ! r)) then
               (let b1 = bits (h1 ! r); n1 = key (h1 ! r); v1 = Value (h1 ! r);
                    h2 = set64 h1 r n bts v
                in case branch (h2 ! r) ! (bitK64 n bi) of
                     None \<Rightarrow> (h2, Inl NilDereference)
                   | Some c \<Rightarrow> then_return r (insert64 h2 c n1 b1 v1 (bi - 1)))
             else if bits (h1 ! r) > 0 \<and> bts \<ge> bits (h1 ! r) then
               (case branch (h1 ! r) ! (bitK64 n bi) of
                  None \<Rightarrow> (h1, Inl NilDereference)
                | Some c \<Rightarrow> insert64 h1 c n bts v (bi - 1))
             else
               (case branch (h1 ! r) ! (bitK64 (key (h ! r)) bi) of
                  None \<Rightarrow> (h1, Inl NilDereference)
                | Some cc \<Rightarrow>
                    (let h2 = set64 h1 cc (key (h1 ! r)) (bits (h1 ! r)) (Value (h1 ! r));
                         h3 = clear64 h2 r
                     in case branch (h3 ! r) ! (bitK64 n bi) of
                          None \<Rightarrow> (h3, Inl NilDereference)
                        | Some c \<Rightarrow> insert64 h3 c n bts v (bi - 1))))
          else
            (let h1 = new_branch h r (bitK64 (key (h ! r)) bi) in
             case branch (h1 ! r) ! (bitK64 (key (h ! r)) bi) of
               None \<Rightarrow> (h1, Inl NilDereference)
             | Some cc \<Rightarrow>
                 (let h2 = set64 h1 cc (key (h1 ! r)) (bits (h1 ! r)) (Value (h1 ! r));
                      h3 = clear64 h2 r;
                      h4 = new_branch h3 r (bitK64 n bi)
                  in case branch (h4 ! r) ! (bitK64 n bi) of
                       None \<Rightarrow> (h4, Inl NilDereference)
                     | Some c \<Rightarrow> insert64 h4 c n bts v (bi - 1)))))"
  by pat_completeness auto
termination
  by (relation "measure (\<lambda>(h, r, n, bts, v, bi). nat (bi + 1))") auto

declare insert64.simps [simp del]

subsection \<open>prune and remove\<close>

text \<open>
  \<open>prune\<close> walks up the parent pointers and \<open>remove\<close> and \<open>find\<close> walk down the
  branches with no bound of their own, so on a heap whose pointers form a cycle they
  would not return. They are partial functions: \<open>None\<close> is "does not return".
\<close>

text \<open>
  The body of \<open>if b0 != nil { ... }\<close> in \<open>prune\<close> after the leaf test: the child's
  entry and branches are moved into \<open>r\<close>.
\<close>

definition move_up :: "'v heap \<Rightarrow> addr \<Rightarrow> addr \<Rightarrow> 'v heap" where
  "move_up h r c =
     (let h1 = set64 h r (key (h ! c)) (bits (h ! c)) (Value (h ! c));
          h2 = set_branch h1 r 0 (branch (h1 ! c) ! 0)
      in set_branch h2 r 1 (branch (h2 ! c) ! 1))"

partial_function (option) prune64 ::
  "'v::zero heap \<Rightarrow> addr option \<Rightarrow> bool \<Rightarrow> ('v heap \<times> (error + unit)) option" where
  "prune64 h r b =
    (if b then
       (case r of
          None \<Rightarrow> Some (h, Inl NilDereference)
        | Some a \<Rightarrow>
            (case parent (h ! a) of
               None \<Rightarrow> Some (clear64 h a, Inr ())
             | Some p \<Rightarrow>
                 prune64
                   (let h1 = (if branch (h ! p) ! 0 = Some a then set_branch h p 0 None else h)
                    in if branch (h1 ! p) ! 1 = Some a then set_branch h1 p 1 None else h1)
                   (Some p) False))
     else
       (case r of
          None \<Rightarrow> Some (h, Inr ())
        | Some a \<Rightarrow>
            if bits (h ! a) \<noteq> 0 then Some (h, Inr ())
            else if branch (h ! a) ! 0 \<noteq> None \<and> branch (h ! a) ! 1 \<noteq> None
            then Some (h, Inr ())
            else
              (case branch (h ! a) ! 0 of
                 Some b0 \<Rightarrow>
                   if \<not> Leaf (h ! b0) then Some (h, Inr ())
                   else
                     (case branch (h ! a) ! 1 of
                        Some b1 \<Rightarrow>
                          if \<not> Leaf (move_up h a b0 ! b1) then Some (move_up h a b0, Inr ())
                          else prune64 (move_up (move_up h a b0) a b1)
                                 (parent (move_up (move_up h a b0) a b1 ! a)) False
                      | None \<Rightarrow> prune64 (move_up h a b0) (parent (move_up h a b0 ! a)) False)
               | None \<Rightarrow>
                   (case branch (h ! a) ! 1 of
                      Some b1 \<Rightarrow>
                        if \<not> Leaf (h ! b1) then Some (h, Inr ())
                        else prune64 (move_up h a b1) (parent (move_up h a b1 ! a)) False
                    | None \<Rightarrow> prune64 h (parent (h ! a)) False))))"

text \<open>
  \<open>r1 := &Radix64{...}\<close> in \<open>remove\<close>: a detached copy of the entry, a new heap
  object with no branches and no parent.
\<close>

definition copy_entry :: "'v heap \<Rightarrow> addr \<Rightarrow> 'v heap" where
  "copy_entry h r =
     h @ [\<lparr>branch = [None, None], parent = None, key = key (h ! r), bits = bits (h ! r),
            Value = Value (h ! r)\<rparr>]"

text \<open>\<open>r.prune(true); return r1\<close>\<close>

definition pruned_return ::
  "addr \<Rightarrow> ('v heap \<times> (error + unit)) option \<Rightarrow> ('v heap \<times> (error + addr option)) option" where
  "pruned_return r1 res =
     (case res of
        None \<Rightarrow> None
      | Some (h, Inl e) \<Rightarrow> Some (h, Inl e)
      | Some (h, Inr _) \<Rightarrow> Some (h, Inr (Some r1)))"

partial_function (option) remove64 ::
  "'v::zero heap \<Rightarrow> addr \<Rightarrow> uint64 \<Rightarrow> int \<Rightarrow> int \<Rightarrow> ('v heap \<times> (error + addr option)) option" where
  "remove64 h r n bts bi =
    (if bits (h ! r) > 0 \<and> bits (h ! r) = bts \<and>
        key (h ! r) AND mask_of (bits (h ! r)) = n AND mask_of (bits (h ! r))
     then pruned_return (length h) (prune64 (copy_entry h r) (Some r) True)
     else if Leaf (h ! r) \<or> branch (h ! r) ! (bitK64 n bi) = None then Some (h, Inr None)
     else
       (case branch (h ! r) ! (bitK64 n bi) of
          None \<Rightarrow> Some (h, Inl NilDereference)
        | Some c \<Rightarrow> remove64 h c n bts (bi - 1)))"

subsection \<open>find\<close>

text \<open>
  The update of the running candidate \<open>last\<close> at a non-leaf node (\<open>last\<close> is
  written \<open>lst\<close>).
\<close>

definition better :: "'v heap \<Rightarrow> addr \<Rightarrow> uint64 \<Rightarrow> addr option \<Rightarrow> addr option" where
  "better h r n lst =
     (if bits (h ! r) > 0 \<and>
         key (h ! r) AND mask_of (bits (h ! r)) = n AND mask_of (bits (h ! r))
      then (case lst of
              None \<Rightarrow> Some r
            | Some l \<Rightarrow> if bits (h ! r) \<ge> bits (h ! l) then Some r else lst)
      else lst)"

partial_function (option) find64 ::
  "'v heap \<Rightarrow> addr \<Rightarrow> uint64 \<Rightarrow> int \<Rightarrow> int \<Rightarrow> addr option \<Rightarrow> addr option option" where
  "find64 h r n bts bi lst =
    (if \<not> Leaf (h ! r) then
       (if bits (h ! r) = bts \<and>
           key (h ! r) AND mask_of (bits (h ! r)) = n AND mask_of (bits (h ! r))
        then Some (Some r)
        else
          (case branch (h ! r) ! (bitK64 n bi) of
             None \<Rightarrow> Some (better h r n lst)
           | Some c \<Rightarrow> find64 h c n bts (bi - 1) (better h r n lst)))
     else
       (if key (h ! r) AND mask_of (bits (h ! r)) = n AND mask_of (bits (h ! r))
        then Some (Some r)
        else Some lst))"

subsection \<open>The operations of the root\<close>

definition Insert ::
  "'v::zero heap \<Rightarrow> addr \<Rightarrow> uint64 \<Rightarrow> int \<Rightarrow> 'v \<Rightarrow> 'v heap \<times> (error + addr)" where
  "Insert h r n bts v =
     (if parent (h ! r) \<noteq> None then (h, Inl NotRootError)
      else insert64 h r n bts v (bitSize32 - 1))"

definition Remove ::
  "'v::zero heap \<Rightarrow> addr \<Rightarrow> uint64 \<Rightarrow> int \<Rightarrow> ('v heap \<times> (error + addr option)) option" where
  "Remove h r n bts =
     (if parent (h ! r) \<noteq> None then Some (h, Inl NotRootError)
      else remove64 h r n bts (bitSize32 - 1))"

definition Find ::
  "'v heap \<Rightarrow> addr \<Rightarrow> uint64 \<Rightarrow> int \<Rightarrow> (error + addr option) option" where
  "Find h r n bts =
     (if parent (h ! r) \<noteq> None then Some (Inl NotRootError)
      else map_option Inr (find64 h r n bts (bitSize32 - 1) None))"

subsection \<open>The queue and the level-order walk\<close>

text \<open>
  \<open>node64\<close> pairs a node pointer with the index of the branch that leads to it
  (\<open>-1\<close> for the root). The queue is a slice; \<open>Pop\<close> returns \<open>nil\<close> on the empty
  queue and otherwise the first element and the rest.
\<close>

record node64 =
  radix64 :: addr
  branch_of :: int

type_synonym queue64 = "node64 list"

definition Push :: "queue64 \<Rightarrow> node64 \<Rightarrow> queue64" where
  "Push q n = q @ [n]"

definition Pop :: "queue64 \<Rightarrow> node64 option \<times> queue64" where
  "Pop q =
     (let lq = length q in
      if lq = 0 then (None, q)
      else (Some (q ! 0), if lq = 1 then take 0 q else drop 1 (take lq q)))"

text \<open>
  \<open>for i, b := range x.Radix64.branch { if b != nil { q.Push(&node64{b, i}) } }\<close>
\<close>

definition push_branches :: "'v heap \<Rightarrow> addr \<Rightarrow> queue64 \<Rightarrow> queue64" where
  "push_branches h a q =
     fold (\<lambda>(i, b) q'. case b of None \<Rightarrow> q'
                        | Some c \<Rightarrow> Push q' \<lparr>radix64 = c, branch_of = int i\<rparr>)
          (enumerate 0 (branch (h ! a))) q"

text \<open>
  The visitor \<open>f\<close> is a callback; its effect is modelled as a change of a state
  \<open>'s\<close> of its own. The walk is the loop \<open>for x != nil\<close>; it is a partial function,
  since on a cyclic heap the queue never runs empty.
\<close>

partial_function (option) Do_loop ::
  "'v heap \<Rightarrow> (addr \<Rightarrow> int \<Rightarrow> 's \<Rightarrow> 's) \<Rightarrow> node64 option \<Rightarrow> queue64 \<Rightarrow> 's \<Rightarrow> 's option" where
  "Do_loop h f x q s =
     (case x of
        None \<Rightarrow> Some s
      | Some nd \<Rightarrow>
          Do_loop h f
            (fst (Pop (push_branches h (radix64 nd) q)))
            (snd (Pop (push_branches h (radix64 nd) q)))
            (f (radix64 nd) (branch_of nd) s))"

definition Do :: "'v heap \<Rightarrow> addr \<Rightarrow> (addr \<Rightarrow> int \<Rightarrow> 's \<Rightarrow> 's) \<Rightarrow> 's \<Rightarrow> 's option" where
  "Do h r f s =
     (let q = Push [] \<lparr>radix64 = r, branch_of = - 1\<rparr>
      in Do_loop h f (fst (Pop q)) (snd (Pop q)) s)"

subsection \<open>Evaluation of the partial functions\<close>

declare prune64.simps [code]
declare remove64.simps [code]
declare find64.simps [code]
declare Do_loop.simps [code]

section \<open>Notions used to state the properties\<close>

subsection \<open>Tries as trees in the heap\<close>

text \<open>
  A finite trie is a finite binary tree of addresses that the heap realises: the two
  branches of the object at each address of the tree are the roots of its two
  subtrees (or \<open>nil\<close> where the subtree is absent). No object occurs twice in a trie,
  which is \<open>distinct (addrs t)\<close>.
\<close>

datatype shape = Shape (root: addr) (left: "shape option") (right: "shape option")

fun rep :: "'v heap \<Rightarrow> shape \<Rightarrow> bool" where
  "rep h (Shape a l r) \<longleftrightarrow>
     a < length h \<and> branch (h ! a) = [map_option root l, map_option root r] \<and>
     (case l of None \<Rightarrow> True | Some t \<Rightarrow> rep h t) \<and>
     (case r of None \<Rightarrow> True | Some t \<Rightarrow> rep h t)"

fun addrs :: "shape \<Rightarrow> addr list" where
  "addrs (Shape a l r) =
     a # (case l of None \<Rightarrow> [] | Some t \<Rightarrow> addrs t) @
         (case r of None \<Rightarrow> [] | Some t \<Rightarrow> addrs t)"

text \<open>
  The objects that the pointers of the heap reach from \<open>r\<close>, through any of the
  branches.
\<close>

inductive reachable :: "'v heap \<Rightarrow> addr \<Rightarrow> addr \<Rightarrow> bool" for h r where
  start: "reachable h r r"
| child: "reachable h r a \<Longrightarrow> k < length (branch (h ! a)) \<Longrightarrow> branch (h ! a) ! k = Some c \<Longrightarrow>
          reachable h r c"

text \<open>The subtrees of a node with the index of their branch, and the level order.\<close>

fun kids :: "shape \<Rightarrow> (shape \<times> int) list" where
  "kids (Shape a l r) =
     (case l of None \<Rightarrow> [] | Some c \<Rightarrow> [(c, 0)]) @
     (case r of None \<Rightarrow> [] | Some c \<Rightarrow> [(c, 1)])"

function level_order :: "(shape \<times> int) list \<Rightarrow> (addr \<times> int) list" where
  "level_order [] = []"
| "level_order ((Shape a l r, i) # q) = (a, i) # level_order (q @ kids (Shape a l r))"
  by pat_completeness auto
termination
  by (relation "measure (\<lambda>q. sum_list (map (size \<circ> fst) q))")
     (auto split: option.splits)

declare kids.simps [simp del]

definition entry :: "shape \<times> int \<Rightarrow> node64" where
  "entry p = \<lparr>radix64 = root (fst p), branch_of = snd p\<rparr>"

subsection \<open>Callers and the spec's prefix\<close>

text \<open>
  A caller that inserts a list of entries through the same root, one call of
  \<open>Insert\<close> after the other, until one of them panics. The result is the heap and
  what the last call returned.
\<close>

fun Inserts ::
  "'v::zero heap \<Rightarrow> addr \<Rightarrow> (uint64 \<times> int \<times> 'v) list \<Rightarrow> 'v heap \<times> (error + addr)" where
  "Inserts h r [] = (h, Inr r)"
| "Inserts h r [(n, bts, v)] = Insert h r n bts v"
| "Inserts h r ((n, bts, v) # e # es) =
     (case Insert h r n bts v of
        (h', Inl err) \<Rightarrow> (h', Inl err)
      | (h', Inr _) \<Rightarrow> Inserts h' r (e # es))"

text \<open>
  The spec's prefix of a key: "the key masked to its \<open>bits\<close> most-significant bits",
  of the 64 bits of the key. This follows the words of the spec, not the code, whose
  mask is \<open>mask_of\<close>.
\<close>

definition spec_prefix :: "uint64 \<Rightarrow> nat \<Rightarrow> uint64" where
  "spec_prefix n b = n AND push_bit (64 - b) (- 1)"

text \<open>The keys \<open>k * 2^32\<close> for \<open>k = 1, ..., m\<close>, each with 64 significant bits and value \<open>k\<close>.\<close>

definition same_low_half :: "nat \<Rightarrow> (uint64 \<times> int \<times> nat) list" where
  "same_low_half m = map (\<lambda>k. (push_bit 32 (word_of_nat k), 64, k)) [1..<Suc m]"

text \<open>
  The trie that these 32 insertions build on a new trie: a single chain below the
  root's child 1, the entry of \<open>k\<close> one level below the entry of \<open>k - 1\<close>.
\<close>

definition chain32 :: "nat heap" where
  "chain32 =
     [\<lparr>branch = [Some 1, Some 2], parent = None, key = 0, bits = 0, Value = 0\<rparr>,
      \<lparr>branch = [Some 3, None], parent = None, key = push_bit 32 1, bits = 64, Value = 1\<rparr>,
      \<lparr>branch = [None, None], parent = None, key = 0, bits = 0, Value = 0\<rparr>] @
     map (\<lambda>k. \<lparr>branch = [if k < 32 then Some (k + 2) else None, None],
                parent = Some (if k = 2 then 1 else k),
                key = push_bit 32 (word_of_nat k), bits = 64, Value = k\<rparr>) [2..<33]"

section \<open>The level-order walk\<close>

lemma Pop_Nil: "Pop [] = (None, [])"
  by (simp add: Pop_def)

lemma Pop_Cons: "Pop (x # xs) = (Some x, xs)"
  by (cases xs) (simp_all add: Pop_def)

lemma push_branches_rep:
  "rep h t \<Longrightarrow> push_branches h (root t) q = q @ map entry (kids t)"
  by (cases t) (auto simp: push_branches_def entry_def Push_def kids.simps split: option.splits)

lemma rep_kids: "rep h t \<Longrightarrow> \<forall>x \<in> set (kids t). rep h (fst x)"
  by (cases t) (auto simp: kids.simps split: option.splits)

lemma Do_loop_None: "Do_loop h f None q s = Some s"
  by (subst Do_loop.simps) simp

text \<open>
  The loop, started on the head of a queue of subtrees, returns, and what it did to
  the visitor's state is what the level order of these subtrees prescribes.
\<close>

lemma Do_loop_level_order:
  "\<forall>p \<in> set ((t, i) # q). rep h (fst p) \<Longrightarrow>
   Do_loop h f (Some (entry (t, i))) (map entry q) s =
     Some (fold (\<lambda>(a, j). f a j) (level_order ((t, i) # q)) s)"
proof (induction "(t, i) # q" arbitrary: t i q s rule: level_order.induct)
  case (2 a l r i q)
  let ?t = "Shape a l r"
  have rt: "rep h ?t" using "2.prems" by simp
  have step: "Do_loop h f (Some (entry (?t, i))) (map entry q) s =
        Do_loop h f (fst (Pop (map entry (q @ kids ?t)))) (snd (Pop (map entry (q @ kids ?t))))
          (f a i s)"
    using push_branches_rep [OF rt, of "map entry q"]
    by (subst Do_loop.simps) (simp add: entry_def)
  show ?case
  proof (cases "q @ kids ?t")
    case Nil
    then have "Do_loop h f (fst (Pop (map entry (q @ kids ?t))))
                 (snd (Pop (map entry (q @ kids ?t)))) (f a i s) = Some (f a i s)"
      by (simp add: Pop_Nil Do_loop_None)
    moreover have "level_order ((?t, i) # q) = [(a, i)]"
      using Nil by simp
    ultimately show ?thesis
      using step by simp
  next
    case (Cons p ps)
    obtain t' i' where p: "p = (t', i')" by (cases p)
    have reps: "\<forall>x \<in> set ((t', i') # ps). rep h (fst x)"
    proof -
      from "2.prems" rep_kids [OF rt]
      have "\<forall>x \<in> set (q @ kids ?t). rep h (fst x)" by auto
      then show ?thesis by (simp add: Cons p)
    qed
    have "Do_loop h f (Some (entry (t', i'))) (map entry ps) (f a i s) =
          Some (fold (\<lambda>(a, j). f a j) (level_order ((t', i') # ps)) (f a i s))"
      using "2.hyps" [of t' i' ps] reps Cons p by simp
    then show ?thesis
      using step Cons p by (simp add: Pop_Cons)
  qed
qed

text \<open>The nodes of a trie are the objects that its root reaches.\<close>

lemma reachable_trans:
  "reachable h b c \<Longrightarrow> reachable h a b \<Longrightarrow> reachable h a c"
  by (induction rule: reachable.induct) (auto intro: reachable.intros)

lemma addrs_reachable:
  "rep h t \<Longrightarrow> a \<in> set (addrs t) \<Longrightarrow> reachable h (root t) a"
proof (induction t)
  case (Shape b l r)
  have sub: "reachable h b a" if "tc \<in> set_option l \<or> tc \<in> set_option r" "a \<in> set (addrs tc)" for tc
  proof -
    have "rep h tc" using Shape.prems(1) that(1) by (auto split: option.splits)
    then have 1: "reachable h (root tc) a"
      using Shape.IH that by auto
    have "\<exists>k < length (branch (h ! b)). branch (h ! b) ! k = Some (root tc)"
      using Shape.prems(1) that(1) by (auto simp: less_Suc_eq split: option.splits)
    then have "reachable h b (root tc)"
      by (auto intro: reachable.child reachable.start)
    with 1 show ?thesis by (rule reachable_trans)
  qed
  show ?case
    using Shape.prems(2) sub by (auto intro: reachable.start split: option.splits)
qed

lemma root_in_addrs [simp]: "root t \<in> set (addrs t)"
  by (cases t) simp

lemma addrs_closed:
  "rep h t \<Longrightarrow> a \<in> set (addrs t) \<Longrightarrow> k < length (branch (h ! a)) \<Longrightarrow>
   branch (h ! a) ! k = Some c \<Longrightarrow> c \<in> set (addrs t)"
proof (induction t)
  case (Shape b l r)
  show ?case
  proof (cases "a = b")
    case True
    then show ?thesis
      using Shape.prems by (auto simp: less_Suc_eq split: option.splits)
  next
    case False
    then show ?thesis
      using Shape by (auto split: option.splits)
  qed
qed

lemma reachable_addrs:
  "reachable h r a \<Longrightarrow> rep h t \<Longrightarrow> r = root t \<Longrightarrow> a \<in> set (addrs t)"
proof (induction rule: reachable.induct)
  case start
  then show ?case by (cases t) simp
next
  case (child a k c)
  then show ?case using addrs_closed by blast
qed

lemma reachable_iff: "rep h t \<Longrightarrow> reachable h (root t) a \<longleftrightarrow> a \<in> set (addrs t)"
  using addrs_reachable reachable_addrs by blast

lemma mset_level_order:
  "mset (map fst (level_order q)) = (\<Sum>p\<in>#mset q. mset (addrs (fst p)))"
proof (induction q rule: level_order.induct)
  case 1
  show ?case by simp
next
  case (2 a l r i q)
  have "(\<Sum>p\<in>#mset (kids (Shape a l r)). mset (addrs (fst p))) + {#a#} =
        mset (addrs (Shape a l r))"
    by (auto simp: kids.simps split: option.splits)
  with 2 show ?case by (simp add: ac_simps)
qed

text \<open>
  C10. On every finite trie the level-order walk \<open>Do\<close> returns: \<open>Pop\<close> gives
  \<open>nil\<close> on the empty queue, which ends the loop, and the visitor has then been
  called exactly once on every node that the root reaches (the calls go to
  pairwise different nodes, and to all the reachable ones).
\<close>

theorem Do_visits_each_node_once:
  assumes "rep h t" and "distinct (addrs t)"
  shows "\<exists>calls. Do h (root t) f s = Some (fold (\<lambda>(a, j). f a j) calls s) \<and>
           distinct (map fst calls) \<and>
           set (map fst calls) = {a. reachable h (root t) a} \<and>
           Pop [] = (None, [])"
proof -
  let ?calls = "level_order [(t, - 1)]"
  have d: "Do h (root t) f s = Some (fold (\<lambda>(a, j). f a j) ?calls s)"
    using Do_loop_level_order [of t "- 1" "[]" h f s] assms(1)
    by (simp add: Do_def Push_def Pop_Cons entry_def)
  have m: "mset (map fst ?calls) = mset (addrs t)"
    using mset_level_order [of "[(t, - 1)]"] by simp
  have "distinct (map fst ?calls)"
    using m assms(2) by (metis mset_eq_imp_distinct_iff)
  moreover have "set (map fst ?calls) = set (addrs t)"
    using m by (metis mset_eq_setD)
  then have "set (map fst ?calls) = {a. reachable h (root t) a}"
    using reachable_iff [OF assms(1)] by auto
  ultimately show ?thesis using d Pop_Nil by blast
qed

theorem Do_visits_each_node_once_witness:
  "rep (fst (New64 ([] :: nat heap))) (Shape 0 (Some (Shape 1 None None)) (Some (Shape 2 None None))) \<and>
   distinct (addrs (Shape 0 (Some (Shape 1 None None)) (Some (Shape 2 None None)))) \<and>
   (\<exists>calls. Do (fst (New64 ([] :: nat heap))) 0 (\<lambda>a j s. s @ [(a, j)]) [] =
              Some (fold (\<lambda>(a, j) s. s @ [(a, j)]) calls []) \<and>
            distinct (map fst calls) \<and>
            set (map fst calls) = {a. reachable (fst (New64 ([] :: nat heap))) 0 a} \<and>
            set (map fst calls) = {0, 1, 2} \<and>
            Pop [] = (None, []))"
proof -
  let ?t = "Shape 0 (Some (Shape 1 None None)) (Some (Shape 2 None None))"
  have r: "rep (fst (New64 ([] :: nat heap))) ?t"
    by (simp add: New64_def)
  have d: "distinct (addrs ?t)"
    by simp
  have "{a. reachable (fst (New64 ([] :: nat heap))) 0 a} = {0, 1, 2}"
    using reachable_iff [OF r] by auto
  then show ?thesis
    using r d Do_visits_each_node_once [OF r d, of "\<lambda>a j s. s @ [(a, j)]" "[]"]
    by auto
qed

section \<open>The code on concrete tries\<close>

text \<open>
  C1. The claim: \<open>Find(n, bits)\<close> right after \<open>Insert(n, bits, v)\<close> returns a node
  with the key \<open>n\<close> on its significant bits, with \<open>bits\<close> and with the value
  \<open>v\<close>. On a new trie \<open>Insert(0, 1, 7)\<close> puts its entry into the root;
  \<open>Insert(0, 1, 8)\<close> then returns the root's child 1, where it has stored the new
  entry, and \<open>Find(0, 1)\<close> returns the root, whose value is still 7. Likewise,
  after \<open>Insert(2^32, 64, 1)\<close> on a new trie, \<open>Insert(2 * 2^32, 64, 2)\<close> returns
  node 3, and \<open>Find(2 * 2^32, 64)\<close> returns node 1 with the key \<open>2^32\<close> and the
  value 1: with 64 significant bits the two keys differ, but the mask that the code
  builds for 64 bits is 0.
\<close>

theorem Find_after_Insert_returns_other_entry:
  "Inserts (fst (New64 [])) 0 [(0, 1, 7 :: nat), (0, 1, 8)] =
     ([\<lparr>branch = [Some 1, Some 2], parent = None, key = 0, bits = 1, Value = 7\<rparr>,
       \<lparr>branch = [None, None], parent = None, key = 0, bits = 1, Value = 8\<rparr>,
       \<lparr>branch = [None, None], parent = None, key = 0, bits = 0, Value = 0\<rparr>], Inr 1) \<and>
   Find [\<lparr>branch = [Some 1, Some 2], parent = None, key = 0, bits = 1, Value = 7 :: nat\<rparr>,
         \<lparr>branch = [None, None], parent = None, key = 0, bits = 1, Value = 8\<rparr>,
         \<lparr>branch = [None, None], parent = None, key = 0, bits = 0, Value = 0\<rparr>] 0 0 1 =
     Some (Inr (Some 0)) \<and>
   Inserts (fst (New64 [])) 0 [(push_bit 32 1, 64, 1 :: nat), (push_bit 32 2, 64, 2)] =
     ([\<lparr>branch = [Some 1, Some 2], parent = None, key = 0, bits = 0, Value = 0\<rparr>,
       \<lparr>branch = [Some 3, None], parent = None, key = push_bit 32 1, bits = 64, Value = 1\<rparr>,
       \<lparr>branch = [None, None], parent = None, key = 0, bits = 0, Value = 0\<rparr>,
       \<lparr>branch = [None, None], parent = Some 1, key = push_bit 32 2, bits = 64, Value = 2\<rparr>],
      Inr 3) \<and>
   Find [\<lparr>branch = [Some 1, Some 2], parent = None, key = 0, bits = 0, Value = 0 :: nat\<rparr>,
         \<lparr>branch = [Some 3, None], parent = None, key = push_bit 32 1, bits = 64, Value = 1\<rparr>,
         \<lparr>branch = [None, None], parent = None, key = 0, bits = 0, Value = 0\<rparr>,
         \<lparr>branch = [None, None], parent = Some 1, key = push_bit 32 2, bits = 64, Value = 2\<rparr>]
        0 (push_bit 32 2) 64 =
     Some (Inr (Some 1)) \<and>
   spec_prefix (push_bit 32 1) 64 \<noteq> spec_prefix (push_bit 32 2) 64 \<and>
   mask_of 64 = 0"
  by code_simp

text \<open>
  C3. The claim: \<open>Find\<close> returns, of the stored entries whose prefix matches the
  query key, one with the greatest bits count (an exact hit at once). The trie
  that holds the single entry \<open>(0, 1, 7)\<close>, in its root, stores no entry with 5
  bits, and the entry \<open>(0, 1)\<close> matches the query key 0; \<open>Find(0, 5)\<close> returns the
  root's child 1, a vacant leaf, and not the root. The trie that holds the single
  entry \<open>(2^63, 40, 7)\<close> stores no entry whose prefix matches the key 0;
  \<open>Find(0, 8)\<close> returns the node of that entry.
\<close>

theorem Find_misses_longest_match:
  "Insert (fst (New64 [])) 0 0 1 (7 :: nat) =
     ([\<lparr>branch = [Some 1, Some 2], parent = None, key = 0, bits = 1, Value = 7\<rparr>,
       \<lparr>branch = [None, None], parent = None, key = 0, bits = 0, Value = 0\<rparr>,
       \<lparr>branch = [None, None], parent = None, key = 0, bits = 0, Value = 0\<rparr>], Inr 0) \<and>
   Find [\<lparr>branch = [Some 1, Some 2], parent = None, key = 0, bits = 1, Value = 7 :: nat\<rparr>,
         \<lparr>branch = [None, None], parent = None, key = 0, bits = 0, Value = 0\<rparr>,
         \<lparr>branch = [None, None], parent = None, key = 0, bits = 0, Value = 0\<rparr>] 0 0 5 =
     Some (Inr (Some 1)) \<and>
   Insert (fst (New64 [])) 0 (push_bit 63 1) 40 (7 :: nat) =
     ([\<lparr>branch = [Some 1, Some 2], parent = None, key = 0, bits = 0, Value = 0\<rparr>,
       \<lparr>branch = [None, None], parent = None, key = push_bit 63 1, bits = 40, Value = 7\<rparr>,
       \<lparr>branch = [None, None], parent = None, key = 0, bits = 0, Value = 0\<rparr>], Inr 1) \<and>
   Find [\<lparr>branch = [Some 1, Some 2], parent = None, key = 0, bits = 0, Value = 0 :: nat\<rparr>,
         \<lparr>branch = [None, None], parent = None, key = push_bit 63 1, bits = 40, Value = 7\<rparr>,
         \<lparr>branch = [None, None], parent = None, key = 0, bits = 0, Value = 0\<rparr>] 0 0 8 =
     Some (Inr (Some 1)) \<and>
   spec_prefix (push_bit 63 1) 40 \<noteq> spec_prefix 0 40"
  by code_simp

lemma Inserts_same_low_half_32:
  "Inserts (fst (New64 [])) 0 (same_low_half 32) = (chain32, Inr 33)"
  by code_simp

text \<open>
  C2. The claim: with \<open>bits\<close> in \<open>[0, 64]\<close> the bit index of \<open>Insert\<close> never goes
  negative and the insertion completes. The code starts the descent at
  \<open>bitSize32 - 1\<close> and so consumes only the bits 31 to 0 of the 64-bit key: the keys
  \<open>k * 2^32\<close> agree on all of them. After \<open>Insert(k * 2^32, 64, k)\<close> for
  \<open>k = 1, ..., 32\<close> on a new trie, each of which returns a node,
  \<open>Insert(33 * 2^32, 64, 33)\<close> panics with the bit index below zero.
\<close>

theorem bit_index_negative_on_33rd_insert:
  "snd (Inserts (fst (New64 [])) 0 (same_low_half 32)) = Inr 33 \<and>
   snd (Insert (fst (Inserts (fst (New64 [])) 0 (same_low_half 32))) 0 (push_bit 32 33) 64 33) =
     Inl InvalidBitIndexError"
  unfolding Inserts_same_low_half_32 by code_simp

text \<open>
  C4. The claim: \<open>Insert\<close>, \<open>Remove\<close> and \<open>Find\<close> on a handle other than the root
  fail with the not-root panic. \<open>New64\<close> builds the two children of the root with a
  \<open>nil\<close> parent, so the test \<open>r.parent != nil\<close> lets them pass: on a new trie
  \<open>Insert(0, 2, 7)\<close> returns the handle 1 of the root's child, and \<open>Find\<close>,
  \<open>Insert\<close> and \<open>Remove\<close> on that handle run on the subtree below it.
\<close>

theorem root_child_handle_is_accepted:
  "Insert (fst (New64 [])) 0 0 2 (7 :: nat) =
     ([\<lparr>branch = [Some 1, Some 2], parent = None, key = 0, bits = 0, Value = 0\<rparr>,
       \<lparr>branch = [None, None], parent = None, key = 0, bits = 2, Value = 7\<rparr>,
       \<lparr>branch = [None, None], parent = None, key = 0, bits = 0, Value = 0\<rparr>], Inr 1) \<and>
   Find (fst (Insert (fst (New64 [])) 0 0 2 (7 :: nat))) 1 0 2 = Some (Inr (Some 1)) \<and>
   Insert (fst (Insert (fst (New64 [])) 0 0 2 (7 :: nat))) 1 5 5 5 =
     ([\<lparr>branch = [Some 1, Some 2], parent = None, key = 0, bits = 0, Value = 0\<rparr>,
       \<lparr>branch = [Some 3, None], parent = None, key = 0, bits = 2, Value = 7\<rparr>,
       \<lparr>branch = [None, None], parent = None, key = 0, bits = 0, Value = 0\<rparr>,
       \<lparr>branch = [None, None], parent = Some 1, key = 5, bits = 5, Value = 5\<rparr>], Inr 3) \<and>
   Remove (fst (Insert (fst (New64 [])) 0 0 2 (7 :: nat))) 1 0 2 =
     Some ([\<lparr>branch = [Some 1, Some 2], parent = None, key = 0, bits = 0, Value = 0\<rparr>,
            \<lparr>branch = [None, None], parent = None, key = 0, bits = 0, Value = 0\<rparr>,
            \<lparr>branch = [None, None], parent = None, key = 0, bits = 0, Value = 0\<rparr>,
            \<lparr>branch = [None, None], parent = None, key = 0, bits = 2, Value = 7\<rparr>],
           Inr (Some 3))"
  by code_simp

text \<open>
  C5. The claim: \<open>Find\<close> returns \<open>nil\<close> when no node on the descent path holds a
  matching entry, and never a vacant node. On a new trie, which holds no entry at
  all, \<open>Find(0, 5)\<close> returns the root's vacant child 1: the leaf case compares the
  keys without the test \<open>r.bits > 0\<close> that the non-leaf case makes.
\<close>

theorem Find_returns_vacant_leaf:
  "Find (fst (New64 ([] :: nat heap))) 0 0 5 = Some (Inr (Some 1)) \<and>
   Bits (fst (New64 ([] :: nat heap)) ! 1) = 0 \<and>
   Leaf (fst (New64 ([] :: nat heap)) ! 1)"
  by code_simp

text \<open>
  C6. The claim: inserting the same (key, bits) pair twice overwrites the value in
  place and leaves one entry, and entries with the same key and different bits
  counts stay distinct. On a new trie \<open>Insert(0, 1, 7)\<close> puts the entry into the
  root, which is not a leaf; \<open>Insert(0, 1, 8)\<close> then stores a second entry for
  \<open>(0, 1)\<close> in the child 1 and \<open>Find(0, 1)\<close> still returns the root with the
  value 7. In the other direction, \<open>Insert(0, 8, 7)\<close> followed by
  \<open>Insert(0, 3, 8)\<close> overwrites the leaf 1, and the entry \<open>(0, 8)\<close> is gone.
\<close>

theorem reinsert_into_inner_node_adds_entry:
  "Inserts (fst (New64 [])) 0 [(0, 1, 7 :: nat), (0, 1, 8)] =
     ([\<lparr>branch = [Some 1, Some 2], parent = None, key = 0, bits = 1, Value = 7\<rparr>,
       \<lparr>branch = [None, None], parent = None, key = 0, bits = 1, Value = 8\<rparr>,
       \<lparr>branch = [None, None], parent = None, key = 0, bits = 0, Value = 0\<rparr>], Inr 1) \<and>
   Find (fst (Inserts (fst (New64 [])) 0 [(0, 1, 7 :: nat), (0, 1, 8)])) 0 0 1 =
     Some (Inr (Some 0)) \<and>
   Inserts (fst (New64 [])) 0 [(0, 8, 7 :: nat), (0, 3, 8)] =
     ([\<lparr>branch = [Some 1, Some 2], parent = None, key = 0, bits = 0, Value = 0\<rparr>,
       \<lparr>branch = [None, None], parent = None, key = 0, bits = 3, Value = 8\<rparr>,
       \<lparr>branch = [None, None], parent = None, key = 0, bits = 0, Value = 0\<rparr>], Inr 1)"
  by code_simp

text \<open>
  C7. The claim: after \<open>Insert\<close>s and \<open>Remove\<close>s no vacant non-root node with a
  single child that could be collapsed stays in the trie. After \<open>Insert(0, 8, 7)\<close>
  and \<open>Insert(1, 8, 8)\<close> on a new trie the root's child 1 holds \<open>(0, 8)\<close> and has
  the single child 3, a leaf holding \<open>(1, 8)\<close>. \<open>Remove(0, 8)\<close> succeeds and leaves
  node 1 vacant with that single leaf child: \<open>prune\<close> takes node 1 for the root,
  its parent being \<open>nil\<close>, and only clears it.
\<close>

theorem vacant_single_child_node_survives:
  "Inserts (fst (New64 [])) 0 [(0, 8, 7 :: nat), (1, 8, 8)] =
     ([\<lparr>branch = [Some 1, Some 2], parent = None, key = 0, bits = 0, Value = 0\<rparr>,
       \<lparr>branch = [Some 3, None], parent = None, key = 0, bits = 8, Value = 7\<rparr>,
       \<lparr>branch = [None, None], parent = None, key = 0, bits = 0, Value = 0\<rparr>,
       \<lparr>branch = [None, None], parent = Some 1, key = 1, bits = 8, Value = 8\<rparr>], Inr 3) \<and>
   Remove (fst (Inserts (fst (New64 [])) 0 [(0, 8, 7 :: nat), (1, 8, 8)])) 0 0 8 =
     Some ([\<lparr>branch = [Some 1, Some 2], parent = None, key = 0, bits = 0, Value = 0\<rparr>,
            \<lparr>branch = [Some 3, None], parent = None, key = 0, bits = 0, Value = 0\<rparr>,
            \<lparr>branch = [None, None], parent = None, key = 0, bits = 0, Value = 0\<rparr>,
            \<lparr>branch = [None, None], parent = Some 1, key = 1, bits = 8, Value = 8\<rparr>,
            \<lparr>branch = [None, None], parent = None, key = 0, bits = 8, Value = 7\<rparr>],
           Inr (Some 4))"
  by code_simp

text \<open>
  C8. The claim: an operation that fails has not changed the trie. On the trie
  built by \<open>Insert(k * 2^32, 64, k)\<close> for \<open>k = 1, ..., 32\<close>, node 1 holds
  \<open>(2^32, 64, 1)\<close>. \<open>Insert(100 * 2^32, 2, 100)\<close> writes its entry into node 1,
  pushes the old entry down and panics with the bit index below zero at the end of
  the chain: the heap at the panic differs from the one before the call, node 1
  holds the new entry and the old one is in no node.
\<close>

theorem Insert_panics_after_writing:
  "Inserts (fst (New64 [])) 0 (same_low_half 32) = (chain32, Inr 33) \<and>
   (key (chain32 ! 1), bits (chain32 ! 1), Value (chain32 ! 1)) = (push_bit 32 1, 64, 1) \<and>
   snd (Insert chain32 0 (push_bit 32 100) 2 100) = Inl InvalidBitIndexError \<and>
   fst (Insert chain32 0 (push_bit 32 100) 2 100) \<noteq> chain32 \<and>
   map (\<lambda>r. (key r, bits r, Value r)) (fst (Insert chain32 0 (push_bit 32 100) 2 100)) =
     [(0, 0, 0), (push_bit 32 100, 2, 100), (0, 0, 0)] @
     map (\<lambda>k. (push_bit 32 (word_of_nat k), 64, k)) [2..<33]"
  unfolding Inserts_same_low_half_32 by code_simp

text \<open>
  C9. The claim: \<open>Remove\<close> of a pair that is not stored returns "not found" and
  leaves the trie as it is. The trie that holds the single entry \<open>(2^63, 40)\<close> does
  not store \<open>(0, 40)\<close>: the keys differ in their first bit. \<open>Remove(0, 40)\<close> returns
  a copy of the entry \<open>(2^63, 40)\<close> and clears node 1: for more than 32 bits the shift
  count \<open>bitSize32 - uint(r.bits)\<close> wraps around and the mask is 0.
\<close>

theorem Remove_of_unstored_pair_removes:
  "Insert (fst (New64 [])) 0 (push_bit 63 1) 40 (7 :: nat) =
     ([\<lparr>branch = [Some 1, Some 2], parent = None, key = 0, bits = 0, Value = 0\<rparr>,
       \<lparr>branch = [None, None], parent = None, key = push_bit 63 1, bits = 40, Value = 7\<rparr>,
       \<lparr>branch = [None, None], parent = None, key = 0, bits = 0, Value = 0\<rparr>], Inr 1) \<and>
   spec_prefix (push_bit 63 1) 40 \<noteq> spec_prefix 0 40 \<and>
   mask_of 40 = 0 \<and>
   Remove (fst (Insert (fst (New64 [])) 0 (push_bit 63 1) 40 (7 :: nat))) 0 0 40 =
     Some ([\<lparr>branch = [Some 1, Some 2], parent = None, key = 0, bits = 0, Value = 0\<rparr>,
            \<lparr>branch = [None, None], parent = None, key = 0, bits = 0, Value = 0\<rparr>,
            \<lparr>branch = [None, None], parent = None, key = 0, bits = 0, Value = 0\<rparr>,
            \<lparr>branch = [None, None], parent = None, key = push_bit 63 1, bits = 40, Value = 7\<rparr>],
           Inr (Some 3))"
  by code_simp

end
